theory Spec2Isabelle
  imports Main "HOL-Library.AList"
begin

section \<open>JavaScript values\<close>

text \<open>
  The values the library handles are JSON data: record fields, query parameters, REST
  responses. Arrays and objects carry the address they live at, because the source
  compares field values with \<^verbatim>\<open>!==\<close>, which on arrays and objects is identity of
  reference. An object is its list of own properties in insertion order. Numbers are
  the integers of magnitude below \<^verbatim>\<open>1e21\<close>, which print in decimal (no fractions, no
  NaN).
\<close>

datatype jsval =
    JUndefined
  | JNull
  | JBool bool
  | JNum int
  | JStr string
  | JArr nat "jsval list"
  | JObj nat "(string \<times> jsval) list"

datatype error = TypeError | ReferenceError | Thrown string

text \<open>ToBoolean: what \<^verbatim>\<open>if (x)\<close>, \<^verbatim>\<open>x && y\<close> and \<^verbatim>\<open>!x\<close> test.\<close>

fun truthy :: "jsval \<Rightarrow> bool" where
  "truthy JUndefined = False"
| "truthy JNull = False"
| "truthy (JBool b) = b"
| "truthy (JNum n) = (n \<noteq> 0)"
| "truthy (JStr s) = (s \<noteq> [])"
| "truthy (JArr a xs) = True"
| "truthy (JObj a kvs) = True"

fun isArray :: "jsval \<Rightarrow> bool" where
  "isArray (JArr a xs) = True"
| "isArray v = False"

fun is_primitive :: "jsval \<Rightarrow> bool" where
  "is_primitive (JArr a xs) = False"
| "is_primitive (JObj a kvs) = False"
| "is_primitive v = True"

text \<open>Strict equality \<^verbatim>\<open>===\<close>: by value on primitives, by address on arrays and objects.\<close>

definition strict_eq :: "jsval \<Rightarrow> jsval \<Rightarrow> bool" where
  "strict_eq v w =
     (case v of
        JArr a xs \<Rightarrow> (case w of JArr b ys \<Rightarrow> a = b | _ \<Rightarrow> False)
      | JObj a kvs \<Rightarrow> (case w of JObj b kvs' \<Rightarrow> a = b | _ \<Rightarrow> False)
      | _ \<Rightarrow> is_primitive w \<and> v = w)"

subsection \<open>ToString and string concatenation\<close>

definition digit_char :: "nat \<Rightarrow> char" where
  "digit_char d = ''0123456789'' ! d"

fun show_nat :: "nat \<Rightarrow> string" where
  "show_nat n = (if n < 10 then [digit_char n] else show_nat (n div 10) @ [digit_char (n mod 10)])"

declare show_nat.simps [simp del]

definition show_int :: "int \<Rightarrow> string" where
  "show_int i = (if i < 0 then CHR ''-'' # show_nat (nat (- i)) else show_nat (nat i))"

text \<open>\<^verbatim>\<open>Array.prototype.join\<close> on the strings of the elements.\<close>

fun join :: "string \<Rightarrow> string list \<Rightarrow> string" where
  "join sep [] = []"
| "join sep [x] = x"
| "join sep (x # y # ys) = x @ sep @ join sep (y # ys)"

text \<open>
  ToString, as applied by \<^verbatim>\<open>'text' + x\<close>. An array prints its elements joined by
  commas, with \<^verbatim>\<open>undefined\<close> and \<^verbatim>\<open>null\<close> elements printed as nothing; a plain object
  prints as \<^verbatim>\<open>[object Object]\<close>.
\<close>

fun to_string :: "jsval \<Rightarrow> string" where
  "to_string JUndefined = ''undefined''"
| "to_string JNull = ''null''"
| "to_string (JBool b) = (if b then ''true'' else ''false'')"
| "to_string (JNum n) = show_int n"
| "to_string (JStr s) = s"
| "to_string (JArr a xs) =
     join '','' (map (\<lambda>x. if x = JUndefined \<or> x = JNull then [] else to_string x) xs)"
| "to_string (JObj a kvs) = ''[object Object]''"

text \<open>
  The loose comparison \<^verbatim>\<open>x == ''\<close>. A boolean or a number is compared with the number of
  the empty string, which is 0; an array or object is compared through its string;
  \<^verbatim>\<open>undefined\<close> and \<^verbatim>\<open>null\<close> equal only each other.
\<close>

fun loose_eq_empty :: "jsval \<Rightarrow> bool" where
  "loose_eq_empty JUndefined = False"
| "loose_eq_empty JNull = False"
| "loose_eq_empty (JBool b) = (\<not> b)"
| "loose_eq_empty (JNum n) = (n = 0)"
| "loose_eq_empty (JStr s) = (s = [])"
| "loose_eq_empty v = (to_string v = [])"

section \<open>AngularForceObjectFactory: the query strings\<close>

text \<open>
  The factory's parameter object. \<^verbatim>\<open>fields\<close> is an array of field names, as the factory's
  comment documents it, or absent; the other parameters are any value, \<^verbatim>\<open>undefined\<close>
  when absent. A missing parameter object (\<^verbatim>\<open>params || {}\<close>) is the record with every
  parameter absent.
\<close>

record params =
  p_type :: jsval
  p_fields :: "string list option"
  p_where :: jsval
  p_limit :: jsval
  p_orderBy :: jsval

definition fieldsArray :: "params \<Rightarrow> string list" where
  "fieldsArray p = (case p_fields p of Some fs \<Rightarrow> fs | None \<Rightarrow> [])"

text \<open>The four locals the factory rewrites under the comment "Make it soql compliant".\<close>

definition fields_clause :: "params \<Rightarrow> string" where
  "fields_clause p =
     (case p_fields p of
        None \<Rightarrow> []
      | Some fs \<Rightarrow> if length fs > 0 then join '', '' fs else [])"

definition where_clause :: "params \<Rightarrow> string" where
  "where_clause p =
     (if truthy (p_where p) \<and> \<not> loose_eq_empty (p_where p)
      then '' where '' @ to_string (p_where p) else [])"

definition limit_clause :: "params \<Rightarrow> string" where
  "limit_clause p =
     (if truthy (p_limit p) \<and> \<not> loose_eq_empty (p_limit p)
      then '' LIMIT '' @ to_string (p_limit p) else ''LIMIT 25'')"

definition orderBy_clause :: "params \<Rightarrow> string" where
  "orderBy_clause p =
     (if truthy (p_orderBy p) \<and> \<not> loose_eq_empty (p_orderBy p)
      then '' ORDER BY '' @ to_string (p_orderBy p) else [])"

definition soql :: "params \<Rightarrow> string" where
  "soql p = ''SELECT '' @ fields_clause p @ '' FROM '' @ to_string (p_type p)
              @ where_clause p @ orderBy_clause p @ limit_clause p"

definition sosl :: "params \<Rightarrow> string" where
  "sosl p = ''Find {__SEARCH_TERM_PLACEHOLDER__*} IN ALL FIELDS RETURNING ''
              @ to_string (p_type p) @ '' ('' @ fields_clause p @ '')''"

section \<open>Entity objects\<close>

subsection \<open>Property access\<close>

text \<open>
  The own enumerable properties of a value, as \<^verbatim>\<open>for (key in v)\<close> visits them: those of
  an object, the indices of an array or of a string.
\<close>

fun own_props :: "jsval \<Rightarrow> (string \<times> jsval) list" where
  "own_props (JObj a kvs) = kvs"
| "own_props (JArr a xs) = zip (map show_nat [0..<length xs]) xs"
| "own_props (JStr s) = zip (map show_nat [0..<length s]) (map (\<lambda>c. JStr [c]) s)"
| "own_props v = []"

definition nullish :: "jsval \<Rightarrow> bool" where
  "nullish v = (v = JUndefined \<or> v = JNull)"

text \<open>
  The read \<^verbatim>\<open>v[k]\<close> on a value that is neither \<^verbatim>\<open>undefined\<close> nor \<^verbatim>\<open>null\<close> (on those the
  read throws a TypeError, which every caller below checks first). Members inherited
  from a prototype are functions and are not part of the data; field names are taken
  not to name one.
\<close>

definition get_prop :: "jsval \<Rightarrow> string \<Rightarrow> jsval" where
  "get_prop v k =
     (case map_of (own_props v) k of
        Some x \<Rightarrow> x
      | None \<Rightarrow>
          (case v of
             JArr a xs \<Rightarrow> if k = ''length'' then JNum (int (length xs)) else JUndefined
           | JStr s \<Rightarrow> if k = ''length'' then JNum (int (length s)) else JUndefined
           | _ \<Rightarrow> JUndefined))"

text \<open>The write \<^verbatim>\<open>v[k] = w\<close> and \<^verbatim>\<open>delete v[k]\<close> on an object; on a primitive neither has an effect.\<close>

fun set_prop :: "jsval \<Rightarrow> string \<Rightarrow> jsval \<Rightarrow> jsval" where
  "set_prop (JObj a kvs) k w = JObj a (AList.update k w kvs)"
| "set_prop v k w = v"

fun delete_prop :: "jsval \<Rightarrow> string \<Rightarrow> jsval" where
  "delete_prop (JObj a kvs) k = JObj a (AList.delete k kvs)"
| "delete_prop v k = v"

subsection \<open>The constructor\<close>

text \<open>
  \<^verbatim>\<open>angular.copy\<close> of a value without a destination: a primitive is returned as it is, an
  array or object is copied in depth into newly allocated ones. The first argument is
  the next free address, returned advanced.
\<close>

fun copy_val :: "nat \<Rightarrow> jsval \<Rightarrow> jsval \<times> nat"
  and copy_list :: "nat \<Rightarrow> jsval list \<Rightarrow> jsval list \<times> nat"
  and copy_props :: "nat \<Rightarrow> (string \<times> jsval) list \<Rightarrow> (string \<times> jsval) list \<times> nat"
where
  "copy_val n JUndefined = (JUndefined, n)"
| "copy_val n JNull = (JNull, n)"
| "copy_val n (JBool b) = (JBool b, n)"
| "copy_val n (JNum i) = (JNum i, n)"
| "copy_val n (JStr s) = (JStr s, n)"
| "copy_val n (JArr a xs) = (case copy_list (Suc n) xs of (ys, m) \<Rightarrow> (JArr n ys, m))"
| "copy_val n (JObj a kvs) = (case copy_props (Suc n) kvs of (kvs', m) \<Rightarrow> (JObj n kvs', m))"
| "copy_list n [] = ([], n)"
| "copy_list n (x # xs) =
     (case copy_val n x of (y, m) \<Rightarrow>
        (case copy_list m xs of (ys, r) \<Rightarrow> (y # ys, r)))"
| "copy_props n [] = ([], n)"
| "copy_props n ((k, v) # kvs) =
     (case copy_val n v of (w, m) \<Rightarrow>
        (case copy_props m kvs of (kvs', r) \<Rightarrow> ((k, w) # kvs', r)))"

text \<open>
  \<^verbatim>\<open>function AngularForceObject(props) { angular.copy(props || {}, this); this._orig = props || {}; }\<close>

  \<^verbatim>\<open>props\<close> is the JSON of one record, an object, or is absent. The new instance gets a copy
  in depth of every own property of the source and then \<^verbatim>\<open>_orig\<close>, which is \<^verbatim>\<open>props\<close>
  itself (the same reference, not a copy). When \<^verbatim>\<open>props\<close> is falsy the two \<^verbatim>\<open>{}\<close> are two
  new empty objects. Every call in this file passes a value that is not an array.
\<close>

definition AngularForceObject :: "nat \<Rightarrow> jsval \<Rightarrow> jsval \<times> nat" where
  "AngularForceObject n props =
     (case (if truthy props then (props, n) else (JObj n [], Suc n)) of (src, n1) \<Rightarrow>
      case copy_props n1 (own_props src) of (copied, n2) \<Rightarrow>
      case (if truthy props then (props, n2) else (JObj n2 [], Suc n2)) of (orig, n3) \<Rightarrow>
        (JObj n3 (AList.update ''_orig'' orig copied), Suc n3))"

subsection \<open>Helpers\<close>

text \<open>
  \<^verbatim>\<open>getChangedData\<close>: the properties of the object \<^verbatim>\<open>diff\<close> it returns. \<^verbatim>\<open>angular.forEach\<close>
  visits the elements of \<^verbatim>\<open>fieldsArray\<close> in order.
\<close>

definition getChangedData :: "params \<Rightarrow> jsval \<Rightarrow> error + (string \<times> jsval) list" where
  "getChangedData p obj =
     (if nullish obj then Inl TypeError
      else
        let orig = get_prop obj ''_orig'' in
        if \<not> truthy orig then Inr []
        else Inr (foldl (\<lambda>diff field.
                    if field \<noteq> ''Id'' \<and> \<not> strict_eq (get_prop obj field) (get_prop orig field)
                    then AList.update field (get_prop obj field) diff else diff)
                  [] (fieldsArray p)))"

definition getNewObjectData :: "params \<Rightarrow> jsval \<Rightarrow> error + (string \<times> jsval) list" where
  "getNewObjectData p obj =
     (if nullish obj \<and> list_ex (\<lambda>field. field \<noteq> ''Id'') (fieldsArray p) then Inl TypeError
      else Inr (foldl (\<lambda>newObj field.
                  if field \<noteq> ''Id'' then AList.update field (get_prop obj field) newObj else newObj)
                [] (fieldsArray p)))"

section \<open>The shared configuration and the client library\<close>

text \<open>
  A \<^verbatim>\<open>forcetk.Client\<close> belongs to the client library; the record holds the fields of it
  that this file reads or writes. \<^verbatim>\<open>SFConfig.client\<close> is \<^verbatim>\<open>undefined\<close>, \<^verbatim>\<open>null\<close> or such a
  client.
\<close>

record forcetk_client =
  instanceUrl :: jsval
  apiVersion :: jsval
  client_proxyUrl :: jsval
  serviceURL :: jsval

datatype handle = Absent | Null | Present forcetk_client

fun present :: "handle \<Rightarrow> bool" where
  "present (Present c) = True"
| "present h = False"

record sfconfig =
  client :: handle
  inVisualforce :: jsval
  sessionId :: jsval
  sfLoginURL :: jsval
  consumerKey :: jsval
  oAuthCallbackURL :: jsval
  proxyUrl :: jsval

text \<open>A callback argument: a function of the caller, known by a number, or \<^verbatim>\<open>undefined\<close>.\<close>

datatype callback = NoCallback | Fn nat

text \<open>The functions this file itself hands to the libraries.\<close>

datatype handler =
    SalesforceSessionRefreshed callback
  | GetAuthCredentialsError
  | ForceOAuthUI_successHandler
  | ForceOAuthUI_errorHandler

text \<open>
  A \<^verbatim>\<open>forcetk.ClientUI\<close>: the six arguments of its constructor and the three fields
  \<^verbatim>\<open>logout\<close> assigns afterwards (\<open>None\<close> while not assigned).
\<close>

record clientUI =
  ui_loginURL :: jsval
  ui_consumerKey :: jsval
  ui_callbackURL :: jsval
  ui_successCallback :: handler
  ui_errorCallback :: handler
  ui_proxyUrl :: jsval
  ui_client :: "handle option"
  ui_instanceUrl :: "jsval option"
  ui_client_proxyUrl :: "jsval option"

text \<open>What an operation does to the outside, in order.\<close>

datatype event =
    Called callback "jsval list"
  | GetAuthCredentials handler handler
  | AddEventListener string handler bool
  | ClientUI_login clientUI callback
  | ClientUI_oauthCallback clientUI jsval
  | ClientUI_logout clientUI callback
  | ConsoleLog string
  | LogToConsole string

text \<open>
  The constructor and the two setters of \<^verbatim>\<open>forcetk.Client\<close> are the library's: they are
  parameters here, and every theorem holds for any of them.
\<close>

record forcetk =
  new_Client :: "jsval list \<Rightarrow> forcetk_client"
  setSessionToken :: "forcetk_client \<Rightarrow> jsval list \<Rightarrow> forcetk_client"
  setRefreshToken :: "forcetk_client \<Rightarrow> jsval list \<Rightarrow> forcetk_client"

text \<open>
  The global \<^verbatim>\<open>cordova\<close>: not declared at all (a page that never loaded Cordova; reading
  the name throws a ReferenceError), declared with a falsy value, or the Cordova object.
  It is the one global whose absence the source tests for. The others it reads
  (\<^verbatim>\<open>forcetk\<close>, \<^verbatim>\<open>apiVersion\<close>, \<^verbatim>\<open>logToConsole\<close>, \<^verbatim>\<open>document\<close>, \<^verbatim>\<open>location\<close>, \<^verbatim>\<open>console\<close>) are taken as
  declared.
\<close>

datatype cordova_global = CordovaUndeclared | CordovaFalsy | CordovaObject

record env =
  protocol :: string
  cordova :: cordova_global
  global_apiVersion :: jsval
  lib :: forcetk

text \<open>
  The result of an operation of the service: \<^verbatim>\<open>SFConfig\<close> afterwards, the calls made, and
  the exception that ended it, if any. \<^verbatim>\<open>SFConfig\<close> itself may be missing (\<open>None\<close>), the
  case \<^verbatim>\<open>loginWeb\<close> tests for.
\<close>

record outcome =
  config :: "sfconfig option"
  effects :: "event list"
  raised :: "error option"

definition finish :: "sfconfig option \<Rightarrow> event list \<Rightarrow> outcome" where
  "finish SFConfig evs = \<lparr>config = SFConfig, effects = evs, raised = None\<rparr>"

definition throw :: "sfconfig option \<Rightarrow> event list \<Rightarrow> error \<Rightarrow> outcome" where
  "throw SFConfig evs e = \<lparr>config = SFConfig, effects = evs, raised = Some e\<rparr>"

text \<open>\<^verbatim>\<open>callback && callback()\<close> and \<^verbatim>\<open>callback()\<close>.\<close>

definition call_if_given :: "sfconfig option \<Rightarrow> callback \<Rightarrow> outcome" where
  "call_if_given SFConfig callback =
     (case callback of
        NoCallback \<Rightarrow> finish SFConfig []
      | Fn f \<Rightarrow> finish SFConfig [Called (Fn f) []])"

definition call :: "sfconfig option \<Rightarrow> event list \<Rightarrow> callback \<Rightarrow> jsval list \<Rightarrow> outcome" where
  "call SFConfig evs callback args =
     (case callback of
        NoCallback \<Rightarrow> throw SFConfig evs TypeError
      | Fn f \<Rightarrow> finish SFConfig (evs @ [Called (Fn f) args]))"

section \<open>The AngularForce service\<close>

definition authenticated :: "sfconfig option \<Rightarrow> error + bool" where
  "authenticated SFConfig =
     (case SFConfig of
        None \<Rightarrow> Inl TypeError
      | Some cfg \<Rightarrow> Inr (present (client cfg)))"

definition getForceTKClientUI :: "sfconfig \<Rightarrow> clientUI" where
  "getForceTKClientUI cfg =
     \<lparr>ui_loginURL = sfLoginURL cfg, ui_consumerKey = consumerKey cfg,
      ui_callbackURL = oAuthCallbackURL cfg,
      ui_successCallback = ForceOAuthUI_successHandler,
      ui_errorCallback = ForceOAuthUI_errorHandler,
      ui_proxyUrl = proxyUrl cfg,
      ui_client = None, ui_instanceUrl = None, ui_client_proxyUrl = None\<rparr>"

definition setCordovaLoginCred :: "env \<Rightarrow> sfconfig option \<Rightarrow> callback \<Rightarrow> outcome" where
  "setCordovaLoginCred e SFConfig callback =
     (case cordova e of
        CordovaUndeclared \<Rightarrow> throw SFConfig [] ReferenceError
      | CordovaFalsy \<Rightarrow> throw SFConfig [] (Thrown ''Cordova/PhoneGap not found.'')
      | CordovaObject \<Rightarrow>
          finish SFConfig
            [GetAuthCredentials (SalesforceSessionRefreshed callback) GetAuthCredentialsError,
             AddEventListener ''salesforceSessionRefresh'' (SalesforceSessionRefreshed callback) False])"

definition loginWeb :: "sfconfig option \<Rightarrow> callback \<Rightarrow> outcome" where
  "loginWeb SFConfig callback =
     (case SFConfig of
        None \<Rightarrow> throw SFConfig [] (Thrown ''Must set app.SFConfig where app is your AngularJS app'')
      | Some cfg \<Rightarrow>
          if present (client cfg) then call_if_given SFConfig callback
          else finish SFConfig [ClientUI_login (getForceTKClientUI cfg) callback])"

definition loginVF :: "env \<Rightarrow> sfconfig option \<Rightarrow> outcome" where
  "loginVF e SFConfig =
     (case SFConfig of
        None \<Rightarrow> throw SFConfig [] TypeError
      | Some cfg \<Rightarrow>
          finish
            (Some (cfg\<lparr>client :=
               Present (setSessionToken (lib e) (new_Client (lib e) []) [sessionId cfg])\<rparr>))
            [])"

definition login :: "env \<Rightarrow> sfconfig option \<Rightarrow> callback \<Rightarrow> outcome" where
  "login e SFConfig callback =
     (case SFConfig of
        None \<Rightarrow> throw SFConfig [] TypeError
      | Some cfg \<Rightarrow>
          if present (client cfg) then call_if_given SFConfig callback
          else if protocol e = ''file:'' \<and> cordova e = CordovaUndeclared
            then throw SFConfig [] ReferenceError
          else if protocol e = ''file:'' \<and> cordova e = CordovaObject
            then setCordovaLoginCred e SFConfig callback
          else if truthy (inVisualforce cfg) then loginVF e SFConfig
          else loginWeb SFConfig callback)"

definition oauthCallback :: "sfconfig option \<Rightarrow> jsval \<Rightarrow> outcome" where
  "oauthCallback SFConfig callbackString =
     (case SFConfig of
        None \<Rightarrow> throw SFConfig [] TypeError
      | Some cfg \<Rightarrow> finish SFConfig [ClientUI_oauthCallback (getForceTKClientUI cfg) callbackString])"

definition logout :: "sfconfig option \<Rightarrow> callback \<Rightarrow> outcome" where
  "logout SFConfig callback =
     (case SFConfig of
        None \<Rightarrow> throw SFConfig [] TypeError
      | Some cfg \<Rightarrow>
          (case client cfg of
             Present c \<Rightarrow>
               finish (Some (cfg\<lparr>client := Null\<rparr>))
                 [ClientUI_logout
                    ((getForceTKClientUI cfg)
                       \<lparr>ui_client := Some (client cfg),
                        ui_instanceUrl := Some (instanceUrl c),
                        ui_client_proxyUrl := Some (client_proxyUrl c)\<rparr>)
                    callback]
           | _ \<Rightarrow> finish SFConfig []))"

subsection \<open>The handlers the libraries call back\<close>

definition salesforceSessionRefreshed ::
  "env \<Rightarrow> sfconfig option \<Rightarrow> callback \<Rightarrow> jsval \<Rightarrow> outcome" where
  "salesforceSessionRefreshed e SFConfig callback creds =
     (if nullish creds then throw SFConfig [] TypeError
      else
        let credsData = (if truthy (get_prop creds ''data'') then get_prop creds ''data'' else creds) in
        (case SFConfig of
           None \<Rightarrow> throw SFConfig [] TypeError
         | Some cfg \<Rightarrow>
             let c0 = new_Client (lib e)
                        [get_prop credsData ''clientId'', get_prop credsData ''loginUrl''];
                 c1 = setSessionToken (lib e) c0
                        [get_prop credsData ''accessToken'', global_apiVersion e,
                         get_prop credsData ''instanceUrl''];
                 c2 = setRefreshToken (lib e) c1 [get_prop credsData ''refreshToken'']
             in call (Some (cfg\<lparr>client := Present c2\<rparr>)) [] callback []))"

definition getAuthCredentialsError :: "sfconfig option \<Rightarrow> jsval \<Rightarrow> outcome" where
  "getAuthCredentialsError SFConfig err =
     finish SFConfig [LogToConsole (''getAuthCredentialsError: '' @ to_string err)]"

definition forceOAuthUI_successHandler :: "sfconfig option \<Rightarrow> forcetk_client \<Rightarrow> outcome" where
  "forceOAuthUI_successHandler SFConfig forcetkClient =
     (case SFConfig of
        None \<Rightarrow> throw SFConfig [ConsoleLog ''OAuth callback success!''] TypeError
      | Some cfg \<Rightarrow>
          finish
            (Some (cfg\<lparr>client := Present (forcetkClient\<lparr>serviceURL :=
               JStr (to_string (instanceUrl forcetkClient) @ ''/services/data/''
                     @ to_string (apiVersion forcetkClient))\<rparr>)\<rparr>))
            [ConsoleLog ''OAuth callback success!''])"

definition forceOAuthUI_errorHandler :: "sfconfig option \<Rightarrow> outcome" where
  "forceOAuthUI_errorHandler SFConfig = finish SFConfig []"

section \<open>The class the factory returns\<close>

subsection \<open>What is handed to the client\<close>

text \<open>
  The success function a CRUD operation passes on: \<^verbatim>\<open>get\<close> and \<^verbatim>\<open>update\<close> wrap the
  caller's \<^verbatim>\<open>successCB\<close> in a function that turns the response into an instance, \<^verbatim>\<open>save\<close>
  in one that renames \<^verbatim>\<open>id\<close> first.
\<close>

datatype wrapper = EntityWrapper callback | CreatedWrapper callback

text \<open>A call of a REST method of the client, with its arguments in order.\<close>

datatype rest_call =
    Query string callback callback
  | Search string callback callback
  | Retrieve jsval jsval "string list" wrapper callback
  | Create jsval "(string \<times> jsval) list" wrapper callback
  | Update jsval jsval "(string \<times> jsval) list" wrapper callback
  | Del jsval jsval callback callback

text \<open>\<^verbatim>\<open>SFConfig.client.m\<close>: a TypeError unless the session handle is there.\<close>

definition the_client :: "sfconfig option \<Rightarrow> error + forcetk_client" where
  "the_client SFConfig =
     (case SFConfig of
        None \<Rightarrow> Inl TypeError
      | Some cfg \<Rightarrow> (case client cfg of Present c \<Rightarrow> Inr c | _ \<Rightarrow> Inl TypeError))"

subsection \<open>The search string\<close>

definition hex_char :: "nat \<Rightarrow> char" where
  "hex_char d = ''0123456789ABCDEF'' ! d"

text \<open>
  The global \<^verbatim>\<open>escape\<close> on characters below 256: letters, digits and \<^verbatim>\<open>@*_+-./\<close> stay,
  every other one becomes \<^verbatim>\<open>%XX\<close>.
\<close>

definition escape :: "string \<Rightarrow> string" where
  "escape s =
     concat (map (\<lambda>c.
       if c \<in> set ''ABCDEFGHIJKLMNOPQRSTUVWXYZabcdefghijklmnopqrstuvwxyz0123456789@*_+-./''
       then [c]
       else [CHR ''%'', hex_char (of_char c div 16), hex_char (of_char c mod 16)]) s)"

text \<open>
  \<^verbatim>\<open>s.replace(pat, rep)\<close> with a string pattern: the first occurrence only. The
  replacement is used literally; the one passed here comes out of \<^verbatim>\<open>escape\<close> and holds
  no \<^verbatim>\<open>$\<close>.
\<close>

fun replace :: "string \<Rightarrow> string \<Rightarrow> string \<Rightarrow> string" where
  "replace [] pat rep = (if pat = [] then rep else [])"
| "replace (c # cs) pat rep =
     (if take (length pat) (c # cs) = pat then rep @ drop (length pat) (c # cs)
      else c # replace cs pat rep)"

subsection \<open>CRUD operations\<close>

definition query :: "params \<Rightarrow> sfconfig option \<Rightarrow> callback \<Rightarrow> callback \<Rightarrow> error + forcetk_client \<times> rest_call" where
  "query p SFConfig successCB failureCB =
     (case the_client SFConfig of
        Inl e \<Rightarrow> Inl e
      | Inr c \<Rightarrow> Inr (c, Query (soql p) successCB failureCB))"

definition search :: "params \<Rightarrow> sfconfig option \<Rightarrow> jsval \<Rightarrow> callback \<Rightarrow> callback \<Rightarrow> error + forcetk_client \<times> rest_call" where
  "search p SFConfig searchTerm successCB failureCB =
     (let s = replace (sosl p) ''__SEARCH_TERM_PLACEHOLDER__'' (escape (to_string searchTerm)) in
      case the_client SFConfig of
        Inl e \<Rightarrow> Inl e
      | Inr c \<Rightarrow> Inr (c, Search s successCB failureCB))"

definition get :: "params \<Rightarrow> sfconfig option \<Rightarrow> jsval \<Rightarrow> callback \<Rightarrow> callback \<Rightarrow> error + forcetk_client \<times> rest_call" where
  "get p SFConfig ps successCB failureCB =
     (case the_client SFConfig of
        Inl e \<Rightarrow> Inl e
      | Inr c \<Rightarrow>
          if nullish ps then Inl TypeError
          else Inr (c, Retrieve (p_type p) (get_prop ps ''id'') (fieldsArray p)
                         (EntityWrapper successCB) failureCB))"

definition save :: "params \<Rightarrow> sfconfig option \<Rightarrow> jsval \<Rightarrow> callback \<Rightarrow> callback \<Rightarrow> error + forcetk_client \<times> rest_call" where
  "save p SFConfig obj successCB failureCB =
     (case getNewObjectData p obj of
        Inl e \<Rightarrow> Inl e
      | Inr data \<Rightarrow>
          (case the_client SFConfig of
             Inl e \<Rightarrow> Inl e
           | Inr c \<Rightarrow> Inr (c, Create (p_type p) data (CreatedWrapper successCB) failureCB)))"

definition update :: "params \<Rightarrow> sfconfig option \<Rightarrow> jsval \<Rightarrow> callback \<Rightarrow> callback \<Rightarrow> error + forcetk_client \<times> rest_call" where
  "update p SFConfig obj successCB failureCB =
     (case getChangedData p obj of
        Inl e \<Rightarrow> Inl e
      | Inr data \<Rightarrow>
          (case the_client SFConfig of
             Inl e \<Rightarrow> Inl e
           | Inr c \<Rightarrow>
               Inr (c, Update (p_type p) (get_prop obj ''Id'') data
                         (EntityWrapper successCB) failureCB)))"

definition remove :: "params \<Rightarrow> sfconfig option \<Rightarrow> jsval \<Rightarrow> callback \<Rightarrow> callback \<Rightarrow> error + forcetk_client \<times> rest_call" where
  "remove p SFConfig obj successCB failureCB =
     (case the_client SFConfig of
        Inl e \<Rightarrow> Inl e
      | Inr c \<Rightarrow>
          if nullish obj then Inl TypeError
          else Inr (c, Del (p_type p) (get_prop obj ''Id'') successCB failureCB))"

text \<open>The two methods of an instance, which pass \<^verbatim>\<open>this\<close> on.\<close>

definition prototype_update :: "params \<Rightarrow> sfconfig option \<Rightarrow> jsval \<Rightarrow> callback \<Rightarrow> callback \<Rightarrow> error + forcetk_client \<times> rest_call" where
  "prototype_update p SFConfig this successCB failureCB = update p SFConfig this successCB failureCB"

definition prototype_destroy :: "params \<Rightarrow> sfconfig option \<Rightarrow> jsval \<Rightarrow> callback \<Rightarrow> callback \<Rightarrow> error + forcetk_client \<times> rest_call" where
  "prototype_destroy p SFConfig this successCB failureCB = remove p SFConfig this successCB failureCB"

subsection \<open>The success wrappers\<close>

text \<open>
  The argument the wrapper of \<^verbatim>\<open>get\<close> and \<^verbatim>\<open>update\<close> passes to \<^verbatim>\<open>successCB\<close> for the response
  \<^verbatim>\<open>data\<close>; the first argument is the next free address.
\<close>

definition wrapped :: "nat \<Rightarrow> jsval \<Rightarrow> jsval" where
  "wrapped n data =
     (if truthy data \<and> \<not> isArray data then fst (AngularForceObject n data) else data)"

text \<open>The same for \<^verbatim>\<open>save\<close>, which first moves a truthy \<^verbatim>\<open>data.id\<close> to \<^verbatim>\<open>data.Id\<close>.\<close>

definition id_renamed :: "jsval \<Rightarrow> jsval" where
  "id_renamed data =
     (if truthy (get_prop data ''id'')
      then delete_prop (set_prop data ''Id'' (get_prop data ''id'')) ''id''
      else data)"

definition wrapped_created :: "nat \<Rightarrow> jsval \<Rightarrow> jsval" where
  "wrapped_created n data =
     (if truthy data \<and> \<not> isArray data then fst (AngularForceObject n (id_renamed data)) else data)"

text \<open>Running a wrapper on a response: the call of \<^verbatim>\<open>successCB\<close> it ends in.\<close>

fun run_wrapper :: "nat \<Rightarrow> wrapper \<Rightarrow> jsval \<Rightarrow> error + callback \<times> jsval list" where
  "run_wrapper n (EntityWrapper successCB) data =
     (case successCB of NoCallback \<Rightarrow> Inl TypeError | Fn f \<Rightarrow> Inr (Fn f, [wrapped n data]))"
| "run_wrapper n (CreatedWrapper successCB) data =
     (case successCB of NoCallback \<Rightarrow> Inl TypeError | Fn f \<Rightarrow> Inr (Fn f, [wrapped_created n data]))"

section \<open>The life of the session handle\<close>

text \<open>
  Modelled from the spec: the application code that creates \<^verbatim>\<open>SFConfig\<close> is not among the
  source files. The spec gives the session handle as "absent at process start"; the
  hosting-context flag and the connection parameters are the application's.
\<close>

definition SFConfig_at_start :: "jsval \<Rightarrow> jsval \<Rightarrow> jsval \<Rightarrow> jsval \<Rightarrow> jsval \<Rightarrow> jsval \<Rightarrow> sfconfig" where
  "SFConfig_at_start vf sid url key cb proxy =
     \<lparr>client = Absent, inVisualforce = vf, sessionId = sid, sfLoginURL = url,
      consumerKey = key, oAuthCallbackURL = cb, proxyUrl = proxy\<rparr>"

text \<open>
  Everything that can run against \<^verbatim>\<open>SFConfig\<close>: a call of an operation of the service, a
  library calling one of the four handlers back, or a CRUD operation of a generated
  class (which only reads \<^verbatim>\<open>SFConfig.client\<close>).
\<close>

datatype action =
    Authenticated
  | Login callback
  | SetCordovaLoginCred callback
  | LoginWeb callback
  | LoginVF
  | OauthCallback jsval
  | Logout callback
  | Fire_salesforceSessionRefreshed callback jsval
  | Fire_getAuthCredentialsError jsval
  | Fire_forceOAuthUI_successHandler forcetk_client
  | Fire_forceOAuthUI_errorHandler
  | QueryOp params callback callback
  | SearchOp params jsval callback callback
  | GetOp params jsval callback callback
  | SaveOp params jsval callback callback
  | UpdateOp params jsval callback callback
  | RemoveOp params jsval callback callback

fun perform :: "env \<Rightarrow> action \<Rightarrow> sfconfig option \<Rightarrow> sfconfig option" where
  "perform e Authenticated SFConfig = SFConfig"
| "perform e (Login callback) SFConfig = config (login e SFConfig callback)"
| "perform e (SetCordovaLoginCred callback) SFConfig = config (setCordovaLoginCred e SFConfig callback)"
| "perform e (LoginWeb callback) SFConfig = config (loginWeb SFConfig callback)"
| "perform e LoginVF SFConfig = config (loginVF e SFConfig)"
| "perform e (OauthCallback callbackString) SFConfig = config (oauthCallback SFConfig callbackString)"
| "perform e (Logout callback) SFConfig = config (logout SFConfig callback)"
| "perform e (Fire_salesforceSessionRefreshed callback creds) SFConfig =
     config (salesforceSessionRefreshed e SFConfig callback creds)"
| "perform e (Fire_getAuthCredentialsError err) SFConfig = config (getAuthCredentialsError SFConfig err)"
| "perform e (Fire_forceOAuthUI_successHandler forcetkClient) SFConfig =
     config (forceOAuthUI_successHandler SFConfig forcetkClient)"
| "perform e Fire_forceOAuthUI_errorHandler SFConfig = config (forceOAuthUI_errorHandler SFConfig)"
| "perform e (QueryOp p successCB failureCB) SFConfig = SFConfig"
| "perform e (SearchOp p searchTerm successCB failureCB) SFConfig = SFConfig"
| "perform e (GetOp p ps successCB failureCB) SFConfig = SFConfig"
| "perform e (SaveOp p obj successCB failureCB) SFConfig = SFConfig"
| "perform e (UpdateOp p obj successCB failureCB) SFConfig = SFConfig"
| "perform e (RemoveOp p obj successCB failureCB) SFConfig = SFConfig"

text \<open>
  The actions in which a login strategy succeeds: the Cordova plugin delivering
  credentials, the OAuth flow delivering a client, and the Visualforce login, called
  directly or chosen by \<^verbatim>\<open>login\<close>.
\<close>

fun login_succeeds :: "env \<Rightarrow> sfconfig \<Rightarrow> action \<Rightarrow> bool" where
  "login_succeeds e cfg (Fire_salesforceSessionRefreshed callback creds) = (\<not> nullish creds)"
| "login_succeeds e cfg (Fire_forceOAuthUI_successHandler forcetkClient) = True"
| "login_succeeds e cfg LoginVF = True"
| "login_succeeds e cfg (Login callback) =
     (\<not> present (client cfg)
      \<and> \<not> (protocol e = ''file:'' \<and> cordova e \<noteq> CordovaFalsy)
      \<and> truthy (inVisualforce cfg))"
| "login_succeeds e cfg a = False"

fun is_logout :: "action \<Rightarrow> bool" where
  "is_logout (Logout callback) = True"
| "is_logout a = False"

section \<open>Sample data\<close>

text \<open>
  A class and a record after the usage example in the factory's comment, a
  configuration without a session and one with, a client library and two hosting
  contexts: the inputs at which the theorems below are evaluated.
\<close>

definition Opportunity :: params where
  "Opportunity =
     \<lparr>p_type = JStr ''Opportunity'', p_fields = Some [''Name'', ''CloseDate'', ''Id''],
      p_where = JStr ''IsWon = TRUE'', p_limit = JUndefined, p_orderBy = JUndefined\<rparr>"

definition myOpp_props :: jsval where
  "myOpp_props =
     JObj 1 [(''Name'', JStr ''Big Opportunity''), (''CloseDate'', JStr ''2013-03-03''),
             (''Id'', JStr ''12312'')]"

definition a_client :: forcetk_client where
  "a_client =
     \<lparr>instanceUrl = JStr ''https://na1.salesforce.com'', apiVersion = JStr ''v27.0'',
      client_proxyUrl = JUndefined, serviceURL = JUndefined\<rparr>"

definition logged_out :: sfconfig where
  "logged_out = SFConfig_at_start (JBool False) JUndefined (JStr ''https://login.salesforce.com/'')
     (JStr ''key'') (JStr ''https://localhost/#/callback'') JUndefined"

definition logged_in :: sfconfig where
  "logged_in = logged_out\<lparr>client := Present a_client\<rparr>"

definition a_library :: forcetk where
  "a_library =
     \<lparr>new_Client = (\<lambda>args. a_client), setSessionToken = (\<lambda>c args. c),
      setRefreshToken = (\<lambda>c args. c)\<rparr>"

definition a_browser :: env where
  "a_browser =
     \<lparr>protocol = ''https:'', cordova = CordovaUndeclared, global_apiVersion = JStr ''v27.0'',
      lib = a_library\<rparr>"

definition a_device :: env where
  "a_device =
     \<lparr>protocol = ''file:'', cordova = CordovaObject, global_apiVersion = JStr ''v27.0'',
      lib = a_library\<rparr>"

section \<open>Properties of the query strings\<close>

text \<open>
  C1. The generated SOQL string is to hold its clauses in the order SELECT, FROM, where,
  ORDER BY, LIMIT, each present clause separated from the text before it by whitespace.
  The order is the one of the concatenation in \<open>soql\<close>. The separation fails for the
  default LIMIT clause: with no \<^verbatim>\<open>limit\<close> given, the clause \<^verbatim>\<open>LIMIT 25\<close> is appended without
  the leading space that the other branch (\<^verbatim>\<open>' LIMIT ' + limit\<close>) and the other clauses
  have, so it runs into the type name. The factory called with
  \<^verbatim>\<open>{type: 'Contact', fields: ['Name']}\<close> builds the string below.
\<close>

theorem soql_default_limit_not_separated:
  "soql \<lparr>p_type = JStr ''Contact'', p_fields = Some [''Name''], p_where = JUndefined,
         p_limit = JUndefined, p_orderBy = JUndefined\<rparr>
   = ''SELECT Name FROM ContactLIMIT 25''"
  by (simp add: soql_def fields_clause_def where_clause_def orderBy_clause_def limit_clause_def)



section \<open>Properties of the field diff\<close>

lemma map_of_foldl_update:
  "map_of (foldl (\<lambda>d f. if c f then AList.update f (g f) d else d) init fs) k =
     (if k \<in> set fs \<and> c k then Some (g k) else map_of init k)"
  by (induction fs arbitrary: init) (auto simp: update_conv')

lemma distinct_foldl_update:
  "distinct (map fst init) \<Longrightarrow>
   distinct (map fst (foldl (\<lambda>d f. if c f then AList.update f (g f) d else d) init fs))"
  by (induction fs arbitrary: init) (auto simp: distinct_update)

lemma keys_foldl_update:
  "fst ` set (foldl (\<lambda>d f. if c f then AList.update f (g f) d else d) init fs) =
     fst ` set init \<union> {f \<in> set fs. c f}"
  by (induction fs arbitrary: init) (auto simp: dom_update)

text \<open>
  C2. Whatever the entity object and the field list, the diff that \<^verbatim>\<open>getChangedData\<close>
  returns has no property \<^verbatim>\<open>Id\<close>, also when the object's \<^verbatim>\<open>Id\<close> differs from the \<^verbatim>\<open>Id\<close> of
  its original snapshot. (The function of the same name in \<^verbatim>\<open>angular-force.js\<close> has the same
  body and visits \<^verbatim>\<open>params.fields\<close> itself, which for an array or an absent \<^verbatim>\<open>fields\<close> is the
  list \<open>fieldsArray\<close>.)
\<close>

theorem getChangedData_excludes_Id:
  "getChangedData p obj = Inr diff \<Longrightarrow> ''Id'' \<notin> fst ` set diff"
proof -
  assume r: "getChangedData p obj = Inr diff"
  let ?orig = "get_prop obj ''_orig''"
  show ?thesis
  proof (cases "truthy ?orig")
    case False
    with r have "diff = []"
      by (simp add: getChangedData_def Let_def split: if_splits)
    then show ?thesis by simp
  next
    case True
    with r have "diff = foldl (\<lambda>d f.
          if f \<noteq> ''Id'' \<and> \<not> strict_eq (get_prop obj f) (get_prop ?orig f)
          then AList.update f (get_prop obj f) d else d) [] (fieldsArray p)"
      by (simp add: getChangedData_def Let_def split: if_splits)
    then have "fst ` set diff = {f \<in> set (fieldsArray p).
          f \<noteq> ''Id'' \<and> \<not> strict_eq (get_prop obj f) (get_prop ?orig f)}"
      by (simp only: keys_foldl_update) simp
    then show ?thesis by simp
  qed
qed

theorem getChangedData_excludes_Id_witness:
  "getChangedData Opportunity
     (set_prop (set_prop (fst (AngularForceObject 2 myOpp_props)) ''Id'' (JStr ''99999''))
        ''Name'' (JStr ''Bigger''))
     = Inr [(''Name'', JStr ''Bigger'')]
   \<and> ''Id'' \<notin> fst ` set [(''Name'', JStr ''Bigger'')]"
proof -
  have r: "getChangedData Opportunity
     (set_prop (set_prop (fst (AngularForceObject 2 myOpp_props)) ''Id'' (JStr ''99999''))
        ''Name'' (JStr ''Bigger''))
     = Inr [(''Name'', JStr ''Bigger'')]"
    by (simp add: getChangedData_def Opportunity_def myOpp_props_def AngularForceObject_def
          fieldsArray_def nullish_def get_prop_def strict_eq_def)
  from r getChangedData_excludes_Id [OF r] show ?thesis by simp
qed

text \<open>
  C3. For an entity object with an original snapshot (a truthy \<^verbatim>\<open>_orig\<close>) and a session
  client, \<^verbatim>\<open>update\<close> calls the client's \<^verbatim>\<open>update\<close> with the type, the object's \<^verbatim>\<open>Id\<close> and a data
  object that holds, for each listed field other than \<^verbatim>\<open>Id\<close> whose current value is not
  strictly equal to the value in the snapshot, the current value, and holds nothing
  else.
\<close>

theorem update_sends_diff:
  assumes "the_client SFConfig = Inr c" and "\<not> nullish obj" and "truthy (get_prop obj ''_orig'')"
  shows "\<exists>diff. update p SFConfig obj successCB failureCB =
            Inr (c, Update (p_type p) (get_prop obj ''Id'') diff (EntityWrapper successCB) failureCB)
          \<and> distinct (map fst diff)
          \<and> (\<forall>field. map_of diff field =
               (if field \<in> set (fieldsArray p) \<and> field \<noteq> ''Id''
                   \<and> \<not> strict_eq (get_prop obj field) (get_prop (get_prop obj ''_orig'') field)
                then Some (get_prop obj field) else None))"
  using assms
  by (simp add: update_def getChangedData_def Let_def map_of_foldl_update distinct_foldl_update)

theorem update_sends_diff_witness:
  "the_client (Some logged_in) = Inr a_client
   \<and> \<not> nullish (set_prop (fst (AngularForceObject 2 myOpp_props)) ''Name'' (JStr ''Bigger''))
   \<and> truthy (get_prop (set_prop (fst (AngularForceObject 2 myOpp_props)) ''Name'' (JStr ''Bigger''))
        ''_orig'')
   \<and> update Opportunity (Some logged_in)
        (set_prop (fst (AngularForceObject 2 myOpp_props)) ''Name'' (JStr ''Bigger'')) (Fn 1) (Fn 2)
      = Inr (a_client, Update (JStr ''Opportunity'') (JStr ''12312'') [(''Name'', JStr ''Bigger'')]
               (EntityWrapper (Fn 1)) (Fn 2))"
proof -
  have h1: "the_client (Some logged_in) = Inr a_client"
    by (simp add: the_client_def logged_in_def)
  have h2: "\<not> nullish (set_prop (fst (AngularForceObject 2 myOpp_props)) ''Name'' (JStr ''Bigger''))"
    by (simp add: nullish_def AngularForceObject_def myOpp_props_def)
  have h3: "truthy (get_prop (set_prop (fst (AngularForceObject 2 myOpp_props)) ''Name'' (JStr ''Bigger''))
        ''_orig'')"
    by (simp add: get_prop_def AngularForceObject_def myOpp_props_def)
  have r: "update Opportunity (Some logged_in)
        (set_prop (fst (AngularForceObject 2 myOpp_props)) ''Name'' (JStr ''Bigger'')) (Fn 1) (Fn 2)
      = Inr (a_client, Update (JStr ''Opportunity'') (JStr ''12312'') [(''Name'', JStr ''Bigger'')]
               (EntityWrapper (Fn 1)) (Fn 2))"
    using update_sends_diff [OF h1 h2 h3, of Opportunity "Fn 1" "Fn 2"]
    by (simp add: update_def getChangedData_def Opportunity_def myOpp_props_def
          AngularForceObject_def fieldsArray_def nullish_def get_prop_def strict_eq_def h1)
  from h1 h2 h3 r show ?thesis by simp
qed

section \<open>Properties of new instances\<close>

lemma copy_val_primitive: "is_primitive v \<Longrightarrow> copy_val n v = (v, n)"
  by (cases v) auto


lemma keys_copy_props: "map fst (fst (copy_props n kvs)) = map fst kvs"
  by (induction kvs arbitrary: n) (auto simp: case_prod_beta)


lemma map_of_copy_props_Some:
  "map_of kvs k = Some v \<Longrightarrow> \<exists>m. map_of (fst (copy_props n kvs)) k = Some (fst (copy_val m v))"
proof (induction kvs arbitrary: n)
  case Nil
  then show ?case by simp
next
  case (Cons kv kvs)
  obtain k' v' where kv: "kv = (k', v')" by (cases kv)
  obtain w m where c1: "copy_val n v' = (w, m)" by (cases "copy_val n v'")
  obtain kvs' r where c2: "copy_props m kvs = (kvs', r)" by (cases "copy_props m kvs")
  show ?case
  proof (cases "k' = k")
    case True
    with Cons.prems kv have "v' = v" by simp
    with True kv c1 c2 have "map_of (fst (copy_props n (kv # kvs))) k = Some (fst (copy_val n v))"
      by simp
    then show ?thesis by blast
  next
    case False
    with Cons.prems kv have "map_of kvs k = Some v" by simp
    from Cons.IH [OF this, of m] obtain j where "map_of (fst (copy_props m kvs)) k = Some (fst (copy_val j v))"
      by blast
    with False kv c1 c2 have "map_of (fst (copy_props n (kv # kvs))) k = Some (fst (copy_val j v))"
      by simp
    then show ?thesis by blast
  qed
qed


lemma instance_shape:
  "fst (AngularForceObject n (JObj a kvs)) =
     JObj (snd (copy_props n kvs)) (AList.update ''_orig'' (JObj a kvs) (fst (copy_props n kvs)))"
  by (simp add: AngularForceObject_def case_prod_beta)




lemma id_renamed_object:
  "map_of kvs ''id'' = Some v \<Longrightarrow> truthy v \<Longrightarrow>
   id_renamed (JObj a kvs) = JObj a (AList.delete ''id'' (AList.update ''Id'' v kvs))"
  by (simp add: id_renamed_def get_prop_def)

lemma id_renamed_unchanged:
  "map_of kvs ''id'' = None \<Longrightarrow> id_renamed (JObj a kvs) = JObj a kvs"
  by (simp add: id_renamed_def get_prop_def)

lemma instance_keys:
  "fst ` set (own_props (fst (AngularForceObject n (JObj a kvs)))) = insert ''_orig'' (fst ` set kvs)"
proof -
  have "fst ` set (fst (copy_props n kvs)) = fst ` set kvs"
    using keys_copy_props [of n kvs] by (metis set_map)
  then show ?thesis by (simp add: instance_shape dom_update)
qed

lemma instance_field_copy:
  assumes "k \<noteq> ''_orig''" and "map_of kvs k = Some v"
  shows "\<exists>m. get_prop (fst (AngularForceObject n (JObj a kvs))) k = fst (copy_val m v)"
proof -
  from map_of_copy_props_Some [OF assms(2), of n]
  obtain m where "map_of (fst (copy_props n kvs)) k = Some (fst (copy_val m v))" by blast
  with assms(1) have "get_prop (fst (AngularForceObject n (JObj a kvs))) k = fst (copy_val m v)"
    by (simp add: instance_shape get_prop_def update_conv')
  then show ?thesis by blast
qed




text \<open>
  C9. When the response of \<^verbatim>\<open>save\<close> is an object with a truthy lowercase \<^verbatim>\<open>id\<close>, the instance
  passed to the success callback has no \<^verbatim>\<open>id\<close> property and has under \<^verbatim>\<open>Id\<close> a copy of that
  value (the value itself when it is a primitive); a response object without a lowercase
  \<^verbatim>\<open>id\<close> is wrapped as it is; an array or a falsy response is passed to the success callback
  unchanged.
\<close>

theorem save_response_wrapping:
  "(map_of kvs ''id'' = Some v \<and> truthy v \<longrightarrow>
       ''id'' \<notin> fst ` set (own_props (wrapped_created n (JObj a kvs)))
     \<and> (\<exists>m. get_prop (wrapped_created n (JObj a kvs)) ''Id'' = fst (copy_val m v))
     \<and> (is_primitive v \<longrightarrow> get_prop (wrapped_created n (JObj a kvs)) ''Id'' = v))
   \<and> (map_of kvs ''id'' = None \<longrightarrow>
       wrapped_created n (JObj a kvs) = fst (AngularForceObject n (JObj a kvs)))
   \<and> (isArray data \<or> \<not> truthy data \<longrightarrow> wrapped_created n data = data)
   \<and> run_wrapper n (CreatedWrapper (Fn f)) data = Inr (Fn f, [wrapped_created n data])"
proof (intro conjI impI)
  assume h: "map_of kvs ''id'' = Some v \<and> truthy v"
  let ?kvs = "AList.delete ''id'' (AList.update ''Id'' v kvs)"
  from h have w: "wrapped_created n (JObj a kvs) = fst (AngularForceObject n (JObj a ?kvs))"
    by (simp add: wrapped_created_def id_renamed_object)
  show "''id'' \<notin> fst ` set (own_props (wrapped_created n (JObj a kvs)))"
    by (simp add: w instance_keys delete_notin_dom)
  have m: "map_of ?kvs ''Id'' = Some v"
    by (simp add: delete_conv' update_conv')
  from instance_field_copy [OF _ m, where a = a and n = n]
  show c: "\<exists>m. get_prop (wrapped_created n (JObj a kvs)) ''Id'' = fst (copy_val m v)"
    by (simp add: w)
  assume "is_primitive v"
  with c show "get_prop (wrapped_created n (JObj a kvs)) ''Id'' = v"
    by (auto simp: copy_val_primitive)
next
  assume "map_of kvs ''id'' = None"
  then show "wrapped_created n (JObj a kvs) = fst (AngularForceObject n (JObj a kvs))"
    by (simp add: wrapped_created_def id_renamed_unchanged)
next
  assume "isArray data \<or> \<not> truthy data"
  then show "wrapped_created n data = data"
    by (auto simp: wrapped_created_def)
next
  show "run_wrapper n (CreatedWrapper (Fn f)) data = Inr (Fn f, [wrapped_created n data])"
    by simp
qed

theorem save_response_wrapping_witness:
  "map_of [(''id'', JStr ''001''), (''success'', JBool True)] ''id'' = Some (JStr ''001'')
   \<and> truthy (JStr ''001'') \<and> is_primitive (JStr ''001'')
   \<and> wrapped_created 2 (JObj 1 [(''id'', JStr ''001''), (''success'', JBool True)])
       = JObj 2 [(''success'', JBool True), (''Id'', JStr ''001''),
                 (''_orig'', JObj 1 [(''success'', JBool True), (''Id'', JStr ''001'')])]
   \<and> get_prop (wrapped_created 2 (JObj 1 [(''id'', JStr ''001''), (''success'', JBool True)])) ''Id''
       = JStr ''001''
   \<and> map_of [(''success'', JBool True)] ''id'' = None
   \<and> wrapped_created 2 (JObj 1 [(''success'', JBool True)])
       = fst (AngularForceObject 2 (JObj 1 [(''success'', JBool True)]))
   \<and> isArray (JArr 1 [])
   \<and> wrapped_created 2 (JArr 1 []) = JArr 1 []"
  using
    save_response_wrapping [of "[(''id'', JStr ''001''), (''success'', JBool True)]" "JStr ''001''" 2 1 "JArr 1 []" 0]
    save_response_wrapping [of "[(''success'', JBool True)]" "JStr ''001''" 2 1 "JArr 1 []" 0]
  by (simp add: wrapped_created_def id_renamed_def AngularForceObject_def get_prop_def)

text \<open>
  The \<^verbatim>\<open>id\<close> has to be truthy: the rename is guarded by \<^verbatim>\<open>if (data.id)\<close>, so a response object
  that carries a falsy \<^verbatim>\<open>id\<close>, here \<^verbatim>\<open>{id: null, success: false}\<close>, keeps it and gets no \<^verbatim>\<open>Id\<close>.
\<close>

theorem save_response_falsy_id_counterexample:
  "map_of [(''id'', JNull), (''success'', JBool False)] ''id'' = Some JNull
   \<and> ''id'' \<in> fst ` set (own_props (wrapped_created 2 (JObj 1 [(''id'', JNull), (''success'', JBool False)])))
   \<and> ''Id'' \<notin> fst ` set (own_props (wrapped_created 2 (JObj 1 [(''id'', JNull), (''success'', JBool False)])))
   \<and> get_prop (wrapped_created 2 (JObj 1 [(''id'', JNull), (''success'', JBool False)])) ''Id'' = JUndefined"
  by (simp add: wrapped_created_def id_renamed_def AngularForceObject_def get_prop_def)

section \<open>Properties of the service\<close>

lemma config_finish [simp]: "config (finish S evs) = S"
  by (simp add: finish_def)

lemma config_throw [simp]: "config (throw S evs er) = S"
  by (simp add: throw_def)

lemma config_call_if_given [simp]: "config (call_if_given S cb) = S"
  by (cases cb) (simp_all add: call_if_given_def)

lemma config_call [simp]: "config (call S evs cb args) = S"
  by (cases cb) (simp_all add: call_def)

lemma logout_clears:
  "present (client cfg) \<Longrightarrow> config (logout (Some cfg) cb) = Some (cfg\<lparr>client := Null\<rparr>)"
  by (cases "client cfg") (auto simp: logout_def)

lemma salesforceSessionRefreshed_populates:
  "\<not> nullish creds \<Longrightarrow>
   \<exists>c. config (salesforceSessionRefreshed e (Some cfg) cb creds) = Some (cfg\<lparr>client := Present c\<rparr>)"
  by (auto simp: salesforceSessionRefreshed_def Let_def)

lemma forceOAuthUI_successHandler_populates:
  "\<exists>c. config (forceOAuthUI_successHandler (Some cfg) fc) = Some (cfg\<lparr>client := Present c\<rparr>)"
  by (auto simp: forceOAuthUI_successHandler_def)

lemma loginVF_populates:
  "\<exists>c. config (loginVF e (Some cfg)) = Some (cfg\<lparr>client := Present c\<rparr>)"
  by (auto simp: loginVF_def)

lemma perform_changes:
  "\<exists>h. perform e a (Some cfg) = Some (cfg\<lparr>client := h\<rparr>)
     \<and> (login_succeeds e cfg a \<longrightarrow> present h)
     \<and> (h \<noteq> client cfg \<longrightarrow>
          (is_logout a \<and> present (client cfg) \<and> h = Null) \<or> (login_succeeds e cfg a \<and> present h))"
proof (cases a)
  case (Login cb)
  then show ?thesis
    by (cases "cordova e")
       (auto simp: login_def loginVF_def loginWeb_def setCordovaLoginCred_def
             intro: exI[of _ "client cfg"])
next
  case (Logout cb)
  then show ?thesis
    by (cases "client cfg") (auto simp: logout_def intro: exI[of _ "client cfg"])
qed (auto simp: setCordovaLoginCred_def loginWeb_def loginVF_def oauthCallback_def
      salesforceSessionRefreshed_def getAuthCredentialsError_def forceOAuthUI_successHandler_def
      forceOAuthUI_errorHandler_def Let_def
      split: cordova_global.splits intro: exI[of _ "client cfg"])

text \<open>
  The strategy \<^verbatim>\<open>login\<close> runs, when the name \<^verbatim>\<open>cordova\<close> can be read: none but the callback
  when the session client is there, else Cordova on a \<^verbatim>\<open>file:\<close> page with the Cordova
  object, else Visualforce when \<^verbatim>\<open>SFConfig.inVisualforce\<close> is truthy, else the web login.
\<close>

lemma login_dispatch:
  "present (client cfg) \<Longrightarrow> login e (Some cfg) cb = call_if_given (Some cfg) cb"
  "\<not> present (client cfg) \<Longrightarrow> protocol e = ''file:'' \<Longrightarrow> cordova e = CordovaObject \<Longrightarrow>
     login e (Some cfg) cb = setCordovaLoginCred e (Some cfg) cb"
  "\<not> present (client cfg) \<Longrightarrow> protocol e \<noteq> ''file:'' \<or> cordova e = CordovaFalsy \<Longrightarrow>
     truthy (inVisualforce cfg) \<Longrightarrow> login e (Some cfg) cb = loginVF e (Some cfg)"
  "\<not> present (client cfg) \<Longrightarrow> protocol e \<noteq> ''file:'' \<or> cordova e = CordovaFalsy \<Longrightarrow>
     \<not> truthy (inVisualforce cfg) \<Longrightarrow> login e (Some cfg) cb = loginWeb (Some cfg) cb"
  by (auto simp: login_def)

text \<open>
  C4. \<^verbatim>\<open>login\<close> is to run the callback alone when the session client is present, and
  otherwise to select exactly one strategy: Cordova on a \<^verbatim>\<open>file:\<close> page where cordova is
  present, Visualforce when the flag is set, the web login otherwise. On a \<^verbatim>\<open>file:\<close> page
  where no global \<^verbatim>\<open>cordova\<close> is declared, no strategy is selected: the test
  \<^verbatim>\<open>location.protocol === 'file:' && cordova\<close> reads the undeclared name, and \<^verbatim>\<open>login\<close> ends in
  a ReferenceError with nothing called and \<^verbatim>\<open>SFConfig\<close> as it was.
\<close>

theorem login_file_url_without_cordova:
  "login (e\<lparr>protocol := ''file:'', cordova := CordovaUndeclared\<rparr>)
     (Some (cfg\<lparr>client := Absent\<rparr>)) callback
   = \<lparr>config = Some (cfg\<lparr>client := Absent\<rparr>), effects = [], raised = Some ReferenceError\<rparr>"
  by (simp add: login_def throw_def)

text \<open>
  C6. A missing runtime dependency is to end the operation in a thrown string, before
  any call of a library. \<^verbatim>\<open>loginWeb\<close> does so when \<^verbatim>\<open>SFConfig\<close> is missing, and
  \<^verbatim>\<open>setCordovaLoginCred\<close> does so when \<^verbatim>\<open>cordova\<close> is declared with a falsy value. When no
  global \<^verbatim>\<open>cordova\<close> is declared at all, the guard \<^verbatim>\<open>if (!cordova)\<close> itself fails: what is
  thrown is a ReferenceError, not the string.
\<close>

theorem setCordovaLoginCred_without_cordova:
  "setCordovaLoginCred (e\<lparr>cordova := CordovaUndeclared\<rparr>) SFConfig callback
     = \<lparr>config = SFConfig, effects = [], raised = Some ReferenceError\<rparr>
   \<and> setCordovaLoginCred (e\<lparr>cordova := CordovaFalsy\<rparr>) SFConfig callback
     = \<lparr>config = SFConfig, effects = [], raised = Some (Thrown ''Cordova/PhoneGap not found.'')\<rparr>
   \<and> loginWeb None callback
     = \<lparr>config = None, effects = [],
        raised = Some (Thrown ''Must set app.SFConfig where app is your AngularJS app'')\<rparr>"
  by (simp add: setCordovaLoginCred_def loginWeb_def throw_def)

text \<open>
  C7. With a session client, each CRUD operation of a generated class returns the call of
  the matching REST method of that client (\<^verbatim>\<open>query\<close>, \<^verbatim>\<open>search\<close>, \<^verbatim>\<open>retrieve\<close>, \<^verbatim>\<open>create\<close>,
  \<^verbatim>\<open>update\<close>, \<^verbatim>\<open>del\<close>) with the caller's \<^verbatim>\<open>failureCB\<close> itself as the failure argument; the
  two instance methods pass on to \<^verbatim>\<open>update\<close> and \<^verbatim>\<open>remove\<close>.
\<close>

theorem crud_forwards_failure_callback:
  assumes "the_client SFConfig = Inr c" and "\<not> nullish obj" and "\<not> nullish ps"
  shows "query p SFConfig successCB failureCB = Inr (c, Query (soql p) successCB failureCB)
    \<and> search p SFConfig searchTerm successCB failureCB
        = Inr (c, Search (replace (sosl p) ''__SEARCH_TERM_PLACEHOLDER__'' (escape (to_string searchTerm)))
                    successCB failureCB)
    \<and> get p SFConfig ps successCB failureCB
        = Inr (c, Retrieve (p_type p) (get_prop ps ''id'') (fieldsArray p)
                    (EntityWrapper successCB) failureCB)
    \<and> (\<exists>data. getNewObjectData p obj = Inr data
          \<and> save p SFConfig obj successCB failureCB
              = Inr (c, Create (p_type p) data (CreatedWrapper successCB) failureCB))
    \<and> (\<exists>data. getChangedData p obj = Inr data
          \<and> update p SFConfig obj successCB failureCB
              = Inr (c, Update (p_type p) (get_prop obj ''Id'') data (EntityWrapper successCB) failureCB))
    \<and> remove p SFConfig obj successCB failureCB
        = Inr (c, Del (p_type p) (get_prop obj ''Id'') successCB failureCB)
    \<and> prototype_update p SFConfig obj successCB failureCB
        = update p SFConfig obj successCB failureCB
    \<and> prototype_destroy p SFConfig obj successCB failureCB
        = remove p SFConfig obj successCB failureCB"
  using assms
  by (simp add: query_def search_def get_def save_def update_def remove_def
        prototype_update_def prototype_destroy_def getNewObjectData_def getChangedData_def Let_def)

theorem crud_forwards_failure_callback_witness:
  "the_client (Some logged_in) = Inr a_client
   \<and> \<not> nullish myOpp_props
   \<and> \<not> nullish (JObj 5 [(''id'', JStr ''12312'')])
   \<and> query Opportunity (Some logged_in) (Fn 1) (Fn 2)
       = Inr (a_client, Query ''SELECT Name, CloseDate, Id FROM Opportunity where IsWon = TRUELIMIT 25'' (Fn 1) (Fn 2))
   \<and> search Opportunity (Some logged_in) (JStr ''Big Op'') (Fn 1) (Fn 2)
       = Inr (a_client, Search ''Find {Big%20Op*} IN ALL FIELDS RETURNING Opportunity (Name, CloseDate, Id)'' (Fn 1) (Fn 2))
   \<and> get Opportunity (Some logged_in) (JObj 5 [(''id'', JStr ''12312'')]) (Fn 1) (Fn 2)
       = Inr (a_client, Retrieve (JStr ''Opportunity'') (JStr ''12312'') [''Name'', ''CloseDate'', ''Id'']
                (EntityWrapper (Fn 1)) (Fn 2))
   \<and> save Opportunity (Some logged_in) myOpp_props (Fn 1) (Fn 2)
       = Inr (a_client, Create (JStr ''Opportunity'')
                [(''Name'', JStr ''Big Opportunity''), (''CloseDate'', JStr ''2013-03-03'')]
                (CreatedWrapper (Fn 1)) (Fn 2))
   \<and> remove Opportunity (Some logged_in) myOpp_props (Fn 1) (Fn 2)
       = Inr (a_client, Del (JStr ''Opportunity'') (JStr ''12312'') (Fn 1) (Fn 2))"
proof -
  have h1: "the_client (Some logged_in) = Inr a_client"
    by (simp add: the_client_def logged_in_def)
  have h2: "\<not> nullish myOpp_props"
    by (simp add: nullish_def myOpp_props_def)
  have h3: "\<not> nullish (JObj 5 [(''id'', JStr ''12312'')])"
    by (simp add: nullish_def)
  have e: "escape ''Big Op'' = ''Big%20Op''"
    by (simp add: escape_def hex_char_def)
  from crud_forwards_failure_callback [OF h1 h2 h3, of Opportunity "Fn 1" "Fn 2" "JStr ''Big Op''"]
  show ?thesis
    using h1 h2 h3
    by (simp add: soql_def sosl_def fields_clause_def where_clause_def orderBy_clause_def
          limit_clause_def Opportunity_def fieldsArray_def myOpp_props_def get_prop_def
          search_def save_def getNewObjectData_def e nullish_def)
qed

text \<open>
  C5. The session handle is absent at the start, so \<^verbatim>\<open>authenticated\<close> answers false; each
  login strategy that succeeds (the Cordova plugin delivering credentials, the OAuth
  flow delivering a client, the Visualforce login) leaves a client in it; \<^verbatim>\<open>logout\<close> on a
  present client leaves \<^verbatim>\<open>null\<close>; and any action changes nothing of \<^verbatim>\<open>SFConfig\<close> but the
  client, and changes the client only as one of these two.
\<close>

theorem session_handle_lifecycle:
  "authenticated (Some (SFConfig_at_start vf sid url key cb proxy)) = Inr False
   \<and> (\<not> nullish creds \<longrightarrow>
        (\<exists>c. config (salesforceSessionRefreshed e (Some cfg) callback creds)
               = Some (cfg\<lparr>client := Present c\<rparr>)))
   \<and> (\<exists>c. config (forceOAuthUI_successHandler (Some cfg) forcetkClient)
               = Some (cfg\<lparr>client := Present c\<rparr>))
   \<and> (\<exists>c. config (loginVF e (Some cfg)) = Some (cfg\<lparr>client := Present c\<rparr>))
   \<and> (present (client cfg) \<longrightarrow>
        config (logout (Some cfg) callback) = Some (cfg\<lparr>client := Null\<rparr>))
   \<and> (\<exists>h. perform e a (Some cfg) = Some (cfg\<lparr>client := h\<rparr>)
         \<and> (login_succeeds e cfg a \<longrightarrow> present h)
         \<and> (h \<noteq> client cfg \<longrightarrow>
              (is_logout a \<and> present (client cfg) \<and> h = Null)
              \<or> (login_succeeds e cfg a \<and> present h)))"
proof (intro conjI impI)
  show "authenticated (Some (SFConfig_at_start vf sid url key cb proxy)) = Inr False"
    by (simp add: authenticated_def SFConfig_at_start_def)
next
  assume "\<not> nullish creds"
  then show "\<exists>c. config (salesforceSessionRefreshed e (Some cfg) callback creds)
               = Some (cfg\<lparr>client := Present c\<rparr>)"
    by (rule salesforceSessionRefreshed_populates)
next
  show "\<exists>c. config (forceOAuthUI_successHandler (Some cfg) forcetkClient)
               = Some (cfg\<lparr>client := Present c\<rparr>)"
    by (rule forceOAuthUI_successHandler_populates)
next
  show "\<exists>c. config (loginVF e (Some cfg)) = Some (cfg\<lparr>client := Present c\<rparr>)"
    by (rule loginVF_populates)
next
  assume "present (client cfg)"
  then show "config (logout (Some cfg) callback) = Some (cfg\<lparr>client := Null\<rparr>)"
    by (rule logout_clears)
next
  show "\<exists>h. perform e a (Some cfg) = Some (cfg\<lparr>client := h\<rparr>)
         \<and> (login_succeeds e cfg a \<longrightarrow> present h)
         \<and> (h \<noteq> client cfg \<longrightarrow>
              (is_logout a \<and> present (client cfg) \<and> h = Null)
              \<or> (login_succeeds e cfg a \<and> present h))"
    by (rule perform_changes)
qed

theorem session_handle_lifecycle_witness:
  "\<not> nullish (JObj 1 [(''accessToken'', JStr ''t'')])
   \<and> config (salesforceSessionRefreshed a_device (Some logged_out) (Fn 1)
        (JObj 1 [(''accessToken'', JStr ''t'')]))
       = Some (logged_out\<lparr>client := Present a_client\<rparr>)
   \<and> present (client logged_in)
   \<and> config (logout (Some logged_in) (Fn 1)) = Some (logged_in\<lparr>client := Null\<rparr>)
   \<and> perform a_browser (Logout (Fn 1)) (Some logged_in) = Some (logged_in\<lparr>client := Null\<rparr>)
   \<and> Null \<noteq> client logged_in
   \<and> is_logout (Logout (Fn 1))
   \<and> login_succeeds a_browser logged_out (Fire_forceOAuthUI_successHandler a_client)
   \<and> present (client (the (perform a_browser (Fire_forceOAuthUI_successHandler a_client) (Some logged_out))))"
  using
    session_handle_lifecycle [of JUndefined JUndefined JUndefined JUndefined JUndefined JUndefined
       "JObj 1 [(''accessToken'', JStr ''t'')]" a_device logged_out "Fn 1" a_client "Logout (Fn 1)"]
    session_handle_lifecycle [of JUndefined JUndefined JUndefined JUndefined JUndefined JUndefined
       "JObj 1 [(''accessToken'', JStr ''t'')]" a_browser logged_in "Fn 1" a_client "Logout (Fn 1)"]
  by (simp add: nullish_def salesforceSessionRefreshed_def a_device_def a_browser_def a_library_def
        logged_in_def logged_out_def SFConfig_at_start_def logout_def forceOAuthUI_successHandler_def
        get_prop_def Let_def)

end
